theory Spec2Isabelle
  imports Main "HOL-Library.Sublist"
begin

section \<open>The gRPC server lifecycle of MLServer (mlserver/grpc/server.py)\<close>

text \<open>
  The module holds one class, \<open>GRPCServer\<close>, with the methods \<open>__init__\<close>,
  \<open>_create_server\<close>, \<open>_get_options\<close>, \<open>start\<close> and \<open>stop\<close>. The methods are
  straight-line code over the object's attributes and over calls into the gRPC
  library and the logger. The embedding keeps both visible: the attributes are the
  fields of a record, and every call that leaves the module is appended to a trace.
  A leading underscore of a Python name is dropped, since an Isabelle name cannot
  start with one.
\<close>

subsection \<open>Python's decimal rendering of an integer\<close>

text \<open>
  The f-strings of the module interpolate the port, a Python \<open>int\<close>. With an empty
  format specification this is \<open>str\<close> of the integer: a minus sign for a negative
  number, then the decimal digits without leading zeros.
\<close>

definition digit_char :: "nat \<Rightarrow> char" where
  "digit_char d = ''0123456789'' ! d"

function str_nat :: "nat \<Rightarrow> string" where
  "str_nat n = (if n < 10 then [digit_char n]
                else str_nat (n div 10) @ [digit_char (n mod 10)])"
  by pat_completeness auto
termination
  by (relation "measure id") auto

declare str_nat.simps [simp del]

definition str_int :: "int \<Rightarrow> string" where
  "str_int i = (if i < 0 then CHR ''-'' # str_nat (nat (- i)) else str_nat (nat i))"

subsection \<open>Data\<close>

text \<open>
  \<open>Settings\<close> is declared outside this module; the module reads three of its
  attributes. The record is extensible, so a configuration may carry any further
  fields in its \<open>more\<close> part.
\<close>

record Settings =
  host :: string
  grpc_port :: int
  grpc_max_message_length :: "int option"

text \<open>
  The data plane and the model repository handlers are opaque collaborators, held by
  reference. A server object returned by \<open>aio.server\<close> is identified by a handle.
\<close>

type_synonym ref = nat
type_synonym handle = nat

text \<open>
  Modelled from the spec: the classes \<open>InferenceServicer\<close>, \<open>ModelRepositoryServicer\<close>
  (module \<open>.servicers\<close>) and \<open>LoggingInterceptor\<close> (module \<open>.interceptors\<close>) are not part
  of this file. A service adapter is a stateless bridge holding a reference to its
  handler component; the interceptor takes no argument. Their constructors are
  therefore data constructors here.
\<close>

datatype servicer = InferenceServicer ref | ModelRepositoryServicer ref

datatype interceptor = LoggingInterceptor

datatype executor = ThreadPoolExecutor int

text \<open>\<open>DefaultGrpcWorkers = 5\<close>\<close>

definition DefaultGrpcWorkers :: int where
  "DefaultGrpcWorkers = 5"

text \<open>
  The attributes of a \<open>GRPCServer\<close>. The three set by \<open>__init__\<close> are always there.
  The three assigned in \<open>_create_server\<close> do not exist before the assignment: \<open>None\<close>
  is the absent attribute, and reading it raises \<open>AttributeError\<close>.
\<close>

record 'a GRPCServer =
  settings :: "'a Settings_scheme"
  data_plane :: ref
  model_repository_handlers :: ref
  inference_servicer :: "servicer option"
  model_repository_servicer :: "servicer option"
  server :: "handle option"

text \<open>
  The calls that leave the module, with their arguments: the construction of the
  server, the two registrations of the generated gRPC code, the port bindings the
  server object offers, its \<open>start\<close>, \<open>wait_for_termination\<close> and \<open>stop\<close>, and
  \<open>logger.info\<close>.
\<close>

datatype event =
    Aio_server handle executor "interceptor list" "(string \<times> int) list"
  | Add_GRPCInferenceServiceServicer_to_server servicer handle
  | Add_ModelRepositoryServiceServicer_to_server servicer handle
  | Add_insecure_port handle string
  | Add_secure_port handle string
  | Server_start handle
  | Logger_info string
  | Wait_for_termination handle
  | Server_stop handle int

datatype error = AttributeError string | ExternalError event

text \<open>
  The behaviour of the library is a parameter: given the calls made so far and the
  next call, the environment says whether that call returns normally (\<open>True\<close>) or
  raises (\<open>False\<close>).
\<close>

type_synonym env = "event list \<Rightarrow> event \<Rightarrow> bool"

record 'a world =
  self :: "'a GRPCServer"
  trace :: "event list"

type_synonym ('a, 'r) prog = "'a world \<Rightarrow> (error + 'r) \<times> 'a world"

subsection \<open>Sequencing with exceptions\<close>

definition ret :: "'r \<Rightarrow> ('a, 'r) prog" where
  "ret x = (\<lambda>w. (Inr x, w))"

definition throw :: "error \<Rightarrow> ('a, 'r) prog" where
  "throw e = (\<lambda>w. (Inl e, w))"

text \<open>An exception ends the method: the rest is skipped, the state stays as it is.\<close>

definition andthen :: "('a, 'r) prog \<Rightarrow> ('r \<Rightarrow> ('a, 'q) prog) \<Rightarrow> ('a, 'q) prog" where
  "andthen m f = (\<lambda>w. case m w of (Inl e, w') \<Rightarrow> (Inl e, w') | (Inr x, w') \<Rightarrow> f x w')"

definition gets :: "('a GRPCServer \<Rightarrow> 'r) \<Rightarrow> ('a, 'r) prog" where
  "gets f = (\<lambda>w. (Inr (f (self w)), w))"

definition getattr :: "('a GRPCServer \<Rightarrow> 'r option) \<Rightarrow> string \<Rightarrow> ('a, 'r) prog" where
  "getattr f name = (\<lambda>w. case f (self w) of
       None \<Rightarrow> throw (AttributeError name) w
     | Some x \<Rightarrow> ret x w)"

definition setattr :: "('a GRPCServer \<Rightarrow> 'a GRPCServer) \<Rightarrow> ('a, unit) prog" where
  "setattr upd = (\<lambda>w. (Inr (), w\<lparr>self := upd (self w)\<rparr>))"

text \<open>A call into the library is recorded when it is made, whether it returns or raises.\<close>

definition external :: "env \<Rightarrow> event \<Rightarrow> ('a, unit) prog" where
  "external env ev = (\<lambda>w.
     (if env (trace w) ev then Inr () else Inl (ExternalError ev),
      w\<lparr>trace := trace w @ [ev]\<rparr>))"

text \<open>
  \<open>aio.server(...)\<close> returns a new object: its handle is above every handle the trace
  has seen.
\<close>

fun fresh :: "event list \<Rightarrow> handle" where
  "fresh [] = 0"
| "fresh (Aio_server h ex ics opts # es) = max (Suc h) (fresh es)"
| "fresh (e # es) = fresh es"

definition aio_server ::
  "env \<Rightarrow> executor \<Rightarrow> interceptor list \<Rightarrow> (string \<times> int) list \<Rightarrow> ('a, handle) prog" where
  "aio_server env ex ics opts = (\<lambda>w.
     let h = fresh (trace w); ev = Aio_server h ex ics opts
     in (if env (trace w) ev then Inr h else Inl (ExternalError ev),
         w\<lparr>trace := trace w @ [ev]\<rparr>))"

subsection \<open>The methods of \<open>GRPCServer\<close>\<close>

definition init :: "'a Settings_scheme \<Rightarrow> ref \<Rightarrow> ref \<Rightarrow> 'a GRPCServer" where
  "init st dp mrh =
     \<lparr>settings = st, data_plane = dp, model_repository_handlers = mrh,
      inference_servicer = None, model_repository_servicer = None, server = None\<rparr>"

definition get_options :: "('a, (string \<times> int) list) prog" where
  "get_options =
     andthen (ret []) (\<lambda>options.
     andthen (gets settings) (\<lambda>st.
     andthen (ret (grpc_max_message_length st)) (\<lambda>max_message_length.
     case max_message_length of
       Some n \<Rightarrow> ret (options @
         [(''grpc.max_message_length'', n),
          (''grpc.max_send_message_length'', n),
          (''grpc.max_receive_message_length'', n)])
     | None \<Rightarrow> ret options)))"

definition create_server :: "env \<Rightarrow> ('a, handle) prog" where
  "create_server env =
     andthen (gets data_plane) (\<lambda>dp.
     andthen (setattr (\<lambda>slf. slf\<lparr>inference_servicer := Some (InferenceServicer dp)\<rparr>)) (\<lambda>_.
     andthen (gets model_repository_handlers) (\<lambda>mrh.
     andthen (setattr (\<lambda>slf. slf\<lparr>model_repository_servicer :=
                                    Some (ModelRepositoryServicer mrh)\<rparr>)) (\<lambda>_.
     andthen (ret LoggingInterceptor) (\<lambda>logging_interceptor.
     andthen get_options (\<lambda>options.
     andthen (aio_server env (ThreadPoolExecutor DefaultGrpcWorkers)
                [logging_interceptor] options) (\<lambda>srv.
     andthen (setattr (\<lambda>slf. slf\<lparr>server := Some srv\<rparr>)) (\<lambda>_.
     andthen (getattr inference_servicer ''_inference_servicer'') (\<lambda>isv.
     andthen (getattr server ''_server'') (\<lambda>s1.
     andthen (external env (Add_GRPCInferenceServiceServicer_to_server isv s1)) (\<lambda>_.
     andthen (getattr model_repository_servicer ''_model_repository_servicer'') (\<lambda>msv.
     andthen (getattr server ''_server'') (\<lambda>s2.
     andthen (external env (Add_ModelRepositoryServiceServicer_to_server msv s2)) (\<lambda>_.
     andthen (getattr server ''_server'') (\<lambda>s3.
     andthen (gets settings) (\<lambda>st.
     andthen (external env
                (Add_insecure_port s3 (host st @ '':'' @ str_int (grpc_port st)))) (\<lambda>_.
     getattr server ''_server'')))))))))))))))))"

definition start :: "env \<Rightarrow> ('a, unit) prog" where
  "start env =
     andthen (create_server env) (\<lambda>_.
     andthen (getattr server ''_server'') (\<lambda>s1.
     andthen (external env (Server_start s1)) (\<lambda>_.
     andthen (gets settings) (\<lambda>st.
     andthen (external env
                (Logger_info (''gRPC server running on '' @
                              ''http://'' @ host st @ '':'' @ str_int (grpc_port st)))) (\<lambda>_.
     andthen (getattr server ''_server'') (\<lambda>s2.
     external env (Wait_for_termination s2)))))))"

definition stop :: "env \<Rightarrow> ('a, unit) prog" where
  "stop env =
     andthen (getattr server ''_server'') (\<lambda>s1.
     external env (Server_stop s1 5))"

subsection \<open>Observations on a trace\<close>

text \<open>The server objects constructed in a trace, and the lines logged in it, in order.\<close>

fun instances :: "event list \<Rightarrow> handle list" where
  "instances [] = []"
| "instances (Aio_server h ex ics opts # es) = h # instances es"
| "instances (e # es) = instances es"

fun log_lines :: "event list \<Rightarrow> string list" where
  "log_lines [] = []"
| "log_lines (Logger_info m # es) = m # log_lines es"
| "log_lines (e # es) = log_lines es"

text \<open>The events a method call has added to the trace.\<close>

definition added :: "'a world \<Rightarrow> 'a world \<Rightarrow> event list" where
  "added w w' = drop (length (trace w)) (trace w')"

subsection \<open>Example inputs\<close>

text \<open>
  A configuration without a maximum message length (host \<open>0.0.0.0\<close>, port 8081), two
  with the length 4194304 on different hosts and ports, one with a negative length; a
  library in which every call returns normally; and a manager fresh from \<open>__init__\<close>.
\<close>

definition cfg :: Settings where
  "cfg = \<lparr>host = ''0.0.0.0'', grpc_port = 8081, grpc_max_message_length = None\<rparr>"

definition cfg_limit :: Settings where
  "cfg_limit = \<lparr>host = ''localhost'', grpc_port = 9000,
                 grpc_max_message_length = Some 4194304\<rparr>"

definition cfg_other :: Settings where
  "cfg_other = \<lparr>host = ''10.1.2.3'', grpc_port = 50051,
                 grpc_max_message_length = Some 4194304\<rparr>"

definition cfg_negative :: Settings where
  "cfg_negative = \<lparr>host = ''0.0.0.0'', grpc_port = 8081,
                    grpc_max_message_length = Some (- 1)\<rparr>"

definition all_ok :: env where
  "all_ok = (\<lambda>tr ev. True)"

definition new_manager :: "Settings \<Rightarrow> unit world" where
  "new_manager st = \<lparr>self = init st 0 1, trace = []\<rparr>"


section \<open>Properties\<close>

subsection \<open>Unfolding the methods\<close>

lemmas prog_defs = ret_def throw_def andthen_def gets_def getattr_def setattr_def
  external_def aio_server_def

lemmas run_defs = start_def stop_def create_server_def get_options_def prog_defs
  all_ok_def new_manager_def init_def cfg_def Let_def

lemma str_nat_small: "n < 10 \<Longrightarrow> str_nat n = [digit_char n]"
  by (subst str_nat.simps) simp

lemma str_nat_large:
  "\<not> n < 10 \<Longrightarrow> str_nat n = str_nat (n div 10) @ [digit_char (n mod 10)]"
  by (subst str_nat.simps) simp

lemmas str_eval = str_int_def str_nat_small str_nat_large digit_char_def

lemma get_options_run:
  "get_options w =
     (Inr (case grpc_max_message_length (settings (self w)) of
             None \<Rightarrow> []
           | Some n \<Rightarrow> [(''grpc.max_message_length'', n),
                       (''grpc.max_send_message_length'', n),
                       (''grpc.max_receive_message_length'', n)]), w)"
  by (simp add: get_options_def prog_defs split: option.splits)

text \<open>
  \<open>_create_server\<close> makes up to four calls, \<open>e1\<close> to \<open>e4\<close>, and stops at the first
  that raises. The two servicer attributes are assigned before the first call, the
  server attribute once \<open>aio.server\<close> has returned.
\<close>

lemma create_server_unfold:
  fixes env :: env and w :: "'a world"
  defines "h \<equiv> fresh (trace w)"
  defines "opts \<equiv> (case grpc_max_message_length (settings (self w)) of
             None \<Rightarrow> []
           | Some n \<Rightarrow> [(''grpc.max_message_length'', n),
                       (''grpc.max_send_message_length'', n),
                       (''grpc.max_receive_message_length'', n)])"
  defines "e1 \<equiv> Aio_server h (ThreadPoolExecutor 5) [LoggingInterceptor] opts"
  defines "e2 \<equiv> Add_GRPCInferenceServiceServicer_to_server
                  (InferenceServicer (data_plane (self w))) h"
  defines "e3 \<equiv> Add_ModelRepositoryServiceServicer_to_server
                  (ModelRepositoryServicer (model_repository_handlers (self w))) h"
  defines "e4 \<equiv> Add_insecure_port h
                  (host (settings (self w)) @ '':'' @ str_int (grpc_port (settings (self w))))"
  defines "s2 \<equiv> (self w)\<lparr>inference_servicer := Some (InferenceServicer (data_plane (self w))),
                    model_repository_servicer :=
                      Some (ModelRepositoryServicer (model_repository_handlers (self w)))\<rparr>"
  shows "create_server env w =
     (if \<not> env (trace w) e1
        then (Inl (ExternalError e1), \<lparr>self = s2, trace = trace w @ [e1]\<rparr>)
      else if \<not> env (trace w @ [e1]) e2
        then (Inl (ExternalError e2),
              \<lparr>self = s2\<lparr>server := Some h\<rparr>, trace = trace w @ [e1, e2]\<rparr>)
      else if \<not> env (trace w @ [e1, e2]) e3
        then (Inl (ExternalError e3),
              \<lparr>self = s2\<lparr>server := Some h\<rparr>, trace = trace w @ [e1, e2, e3]\<rparr>)
      else if \<not> env (trace w @ [e1, e2, e3]) e4
        then (Inl (ExternalError e4),
              \<lparr>self = s2\<lparr>server := Some h\<rparr>, trace = trace w @ [e1, e2, e3, e4]\<rparr>)
      else (Inr h, \<lparr>self = s2\<lparr>server := Some h\<rparr>, trace = trace w @ [e1, e2, e3, e4]\<rparr>))"
  unfolding h_def opts_def e1_def e2_def e3_def e4_def s2_def
  by (cases w)
     (simp add: create_server_def get_options_run prog_defs DefaultGrpcWorkers_def Let_def)

lemma create_server_added:
  fixes env :: env and w :: "'a world"
  defines "h \<equiv> fresh (trace w)"
  defines "opts \<equiv> (case grpc_max_message_length (settings (self w)) of
             None \<Rightarrow> []
           | Some n \<Rightarrow> [(''grpc.max_message_length'', n),
                       (''grpc.max_send_message_length'', n),
                       (''grpc.max_receive_message_length'', n)])"
  defines "e1 \<equiv> Aio_server h (ThreadPoolExecutor 5) [LoggingInterceptor] opts"
  defines "e2 \<equiv> Add_GRPCInferenceServiceServicer_to_server
                  (InferenceServicer (data_plane (self w))) h"
  defines "e3 \<equiv> Add_ModelRepositoryServiceServicer_to_server
                  (ModelRepositoryServicer (model_repository_handlers (self w))) h"
  defines "e4 \<equiv> Add_insecure_port h
                  (host (settings (self w)) @ '':'' @ str_int (grpc_port (settings (self w))))"
  assumes run: "create_server env w = (r, w')"
  shows "(added w w' = [e1] \<and> r = Inl (ExternalError e1)) \<or>
         (added w w' = [e1, e2] \<and> r = Inl (ExternalError e2)) \<or>
         (added w w' = [e1, e2, e3] \<and> r = Inl (ExternalError e3)) \<or>
         (added w w' = [e1, e2, e3, e4] \<and> (r = Inl (ExternalError e4) \<or> r = Inr h))"
  using run unfolding h_def opts_def e1_def e2_def e3_def e4_def added_def
  by (subst (asm) create_server_unfold) (auto split: if_splits)

lemma create_server_ok:
  assumes "create_server env w = (Inr h, w1)"
  shows "h = fresh (trace w)"
    and "server (self w1) = Some h"
    and "settings (self w1) = settings (self w)"
    and "\<exists>opts. trace w1 = trace w @
           [Aio_server h (ThreadPoolExecutor 5) [LoggingInterceptor] opts,
            Add_GRPCInferenceServiceServicer_to_server
              (InferenceServicer (data_plane (self w))) h,
            Add_ModelRepositoryServiceServicer_to_server
              (ModelRepositoryServicer (model_repository_handlers (self w))) h,
            Add_insecure_port h
              (host (settings (self w)) @ '':'' @ str_int (grpc_port (settings (self w))))]"
  using assms by (subst (asm) create_server_unfold; auto split: if_splits)+





lemma start_create_ok:
  assumes "create_server env w = (Inr x, w1)" and "server (self w1) = Some h"
  shows "start env w =
     (let m = Logger_info (''gRPC server running on '' @ ''http://'' @
                host (settings (self w1)) @ '':'' @ str_int (grpc_port (settings (self w1))));
          t1 = trace w1 @ [Server_start h]
      in if \<not> env (trace w1) (Server_start h)
           then (Inl (ExternalError (Server_start h)), w1\<lparr>trace := t1\<rparr>)
         else if \<not> env t1 m
           then (Inl (ExternalError m), w1\<lparr>trace := t1 @ [m]\<rparr>)
         else (if env (t1 @ [m]) (Wait_for_termination h) then Inr ()
               else Inl (ExternalError (Wait_for_termination h)),
               w1\<lparr>trace := t1 @ [m, Wait_for_termination h]\<rparr>))"
  using assms by (simp add: start_def prog_defs Let_def)

subsection \<open>Handles and observations\<close>




text \<open>The run of \<open>_create_server\<close> on the first example, every call returning.\<close>

lemma example_create_server:
  "create_server all_ok (new_manager cfg) =
     (Inr 0, snd (create_server all_ok (new_manager cfg)))"
  "added (new_manager cfg) (snd (create_server all_ok (new_manager cfg))) =
     [Aio_server 0 (ThreadPoolExecutor 5) [LoggingInterceptor] [],
      Add_GRPCInferenceServiceServicer_to_server (InferenceServicer 0) 0,
      Add_ModelRepositoryServiceServicer_to_server (ModelRepositoryServicer 1) 0,
      Add_insecure_port 0 ''0.0.0.0:8081'']"
  by (simp_all add: run_defs added_def DefaultGrpcWorkers_def str_eval)

section \<open>The transport options\<close>

text \<open>
  C1. When the maximum message length is present with value \<open>n\<close>, the option builder
  returns exactly the three entries for the generic, the send and the receive maximum,
  each with value \<open>n\<close>, in that order; when it is absent, the builder returns the
  empty list. In both cases it returns normally and changes nothing.
\<close>

theorem get_options_spec:
  "(grpc_max_message_length (settings (self w)) = Some n \<longrightarrow>
      get_options w =
        (Inr [(''grpc.max_message_length'', n),
              (''grpc.max_send_message_length'', n),
              (''grpc.max_receive_message_length'', n)], w)) \<and>
   (grpc_max_message_length (settings (self w)) = None \<longrightarrow> get_options w = (Inr [], w))"
  by (simp add: get_options_run)

theorem get_options_spec_witness:
  "get_options (new_manager cfg_limit) =
     (Inr [(''grpc.max_message_length'', 4194304),
           (''grpc.max_send_message_length'', 4194304),
           (''grpc.max_receive_message_length'', 4194304)], new_manager cfg_limit) \<and>
   get_options (new_manager cfg) = (Inr [], new_manager cfg)"
  using get_options_spec [of "new_manager cfg_limit" 4194304]
        get_options_spec [of "new_manager cfg" 0]
  by (simp add: new_manager_def init_def cfg_def cfg_limit_def)

text \<open>
  C5. For a present maximum message length \<open>n\<close>, any integer at all and so also a
  negative one, the option builder raises nothing: it returns normally, and the value
  of each of the three entries it returns is \<open>n\<close>, unchanged.
\<close>

theorem get_options_no_validation:
  "grpc_max_message_length (settings (self w)) = Some n \<Longrightarrow>
     \<exists>opts. get_options w = (Inr opts, w) \<and> map snd opts = [n, n, n]"
  by (simp add: get_options_run)

theorem get_options_no_validation_witness:
  "grpc_max_message_length (settings (self (new_manager cfg_negative))) = Some (- 1) \<and>
   (\<exists>opts. get_options (new_manager cfg_negative) = (Inr opts, new_manager cfg_negative) \<and>
           map snd opts = [- 1, - 1, - 1])"
proof -
  have present:
    "grpc_max_message_length (settings (self (new_manager cfg_negative))) = Some (- 1)"
    by (simp add: new_manager_def init_def cfg_negative_def)
  from get_options_no_validation [OF present] present show ?thesis by simp
qed

text \<open>
  C10. The option builder depends on the maximum message length only: for two
  managers whose configurations agree on that field, whatever their other fields,
  attributes and traces are, the option lists it returns are equal.
\<close>

theorem get_options_noninterference:
  fixes w1 :: "'a world" and w2 :: "'b world"
  assumes "grpc_max_message_length (settings (self w1)) =
           grpc_max_message_length (settings (self w2))"
  shows "fst (get_options w1) = fst (get_options w2)"
  using assms by (simp add: get_options_run)

theorem get_options_noninterference_witness:
  "grpc_max_message_length (settings (self (new_manager cfg_limit))) =
   grpc_max_message_length (settings (self (snd (start all_ok (new_manager cfg_other))))) \<and>
   fst (get_options (new_manager cfg_limit)) =
   fst (get_options (snd (start all_ok (new_manager cfg_other))))"
proof -
  have agree: "grpc_max_message_length (settings (self (new_manager cfg_limit))) =
    grpc_max_message_length (settings (self (snd (start all_ok (new_manager cfg_other)))))"
    by (simp add: run_defs cfg_limit_def cfg_other_def)
  from get_options_noninterference [OF agree] agree show ?thesis by simp
qed

section \<open>Server construction\<close>

text \<open>
  C6. In every execution of \<open>_create_server\<close>, whatever the library does: when the
  address of the server is bound, the inference servicer and the model repository
  servicer have both been registered against that same server before.
\<close>

theorem create_server_registers_before_binding:
  assumes "create_server env w = (r, w')"
      and "added w w' = pre @ Add_insecure_port h a # post"
  shows "Add_GRPCInferenceServiceServicer_to_server
           (InferenceServicer (data_plane (self w))) h \<in> set pre \<and>
         Add_ModelRepositoryServiceServicer_to_server
           (ModelRepositoryServicer (model_repository_handlers (self w))) h \<in> set pre"
  using create_server_added [OF assms(1)] assms(2)
  by (auto simp: append_eq_Cons_conv Cons_eq_append_conv)

theorem create_server_registers_before_binding_witness:
  "create_server all_ok (new_manager cfg) =
     (Inr 0, snd (create_server all_ok (new_manager cfg))) \<and>
   added (new_manager cfg) (snd (create_server all_ok (new_manager cfg))) =
     [Aio_server 0 (ThreadPoolExecutor 5) [LoggingInterceptor] [],
      Add_GRPCInferenceServiceServicer_to_server (InferenceServicer 0) 0,
      Add_ModelRepositoryServiceServicer_to_server (ModelRepositoryServicer 1) 0] @
     Add_insecure_port 0 ''0.0.0.0:8081'' # [] \<and>
   Add_GRPCInferenceServiceServicer_to_server (InferenceServicer 0) 0 \<in>
     set [Aio_server 0 (ThreadPoolExecutor 5) [LoggingInterceptor] [],
          Add_GRPCInferenceServiceServicer_to_server (InferenceServicer 0) 0,
          Add_ModelRepositoryServiceServicer_to_server (ModelRepositoryServicer 1) 0] \<and>
   Add_ModelRepositoryServiceServicer_to_server (ModelRepositoryServicer 1) 0 \<in>
     set [Aio_server 0 (ThreadPoolExecutor 5) [LoggingInterceptor] [],
          Add_GRPCInferenceServiceServicer_to_server (InferenceServicer 0) 0,
          Add_ModelRepositoryServiceServicer_to_server (ModelRepositoryServicer 1) 0]"
proof -
  have run: "create_server all_ok (new_manager cfg) =
      (Inr 0, snd (create_server all_ok (new_manager cfg)))"
    by (rule example_create_server(1))
  have split: "added (new_manager cfg) (snd (create_server all_ok (new_manager cfg))) =
     [Aio_server 0 (ThreadPoolExecutor 5) [LoggingInterceptor] [],
      Add_GRPCInferenceServiceServicer_to_server (InferenceServicer 0) 0,
      Add_ModelRepositoryServiceServicer_to_server (ModelRepositoryServicer 1) 0] @
     Add_insecure_port 0 ''0.0.0.0:8081'' # []"
    by (simp add: example_create_server(2))
  from create_server_registers_before_binding [OF run split] run split
  show ?thesis by (simp add: new_manager_def init_def)
qed



text \<open>
  C9. In every execution of \<open>_create_server\<close>, for every configuration: exactly one
  server is constructed, and it is constructed with a thread pool of
  \<open>DefaultGrpcWorkers\<close> = 5 workers.
\<close>

theorem create_server_worker_pool:
  assumes "create_server env w = (r, w')"
  shows "DefaultGrpcWorkers = 5 \<and>
         (\<exists>opts rest. added w w' =
            Aio_server (fresh (trace w)) (ThreadPoolExecutor 5) [LoggingInterceptor] opts # rest \<and>
            instances rest = [])"
  using create_server_added [OF assms] by (auto simp: DefaultGrpcWorkers_def)

theorem create_server_worker_pool_witness:
  "create_server all_ok (new_manager cfg) =
     (Inr 0, snd (create_server all_ok (new_manager cfg))) \<and>
   DefaultGrpcWorkers = 5 \<and>
   (\<exists>opts rest. added (new_manager cfg) (snd (create_server all_ok (new_manager cfg))) =
      Aio_server 0 (ThreadPoolExecutor 5) [LoggingInterceptor] opts # rest \<and>
      instances rest = [])"
proof -
  have run: "create_server all_ok (new_manager cfg) =
      (Inr 0, snd (create_server all_ok (new_manager cfg)))"
    by (rule example_create_server(1))
  have first: "fresh (trace (new_manager cfg)) = 0"
    by (simp add: new_manager_def)
  show ?thesis
    using create_server_worker_pool [OF run] run unfolding first by blast
qed

section \<open>Start and stop\<close>

text \<open>
  The two methods are coroutines. A call of \<open>start\<close> is taken here up to the return of
  \<open>wait_for_termination\<close>, a call of \<open>stop\<close> up to the return of the server's \<open>stop\<close>:
  what an \<open>await\<close> suspends on is the library call the trace records.

  C7. When the server has been constructed and its \<open>start\<close> has returned, so that it
  listens, \<open>start\<close> logs exactly one line. The call of the logger comes right after
  the server's \<open>start\<close>, and \<open>wait_for_termination\<close>, when it is reached, right after
  the logger. The line is \<open>gRPC server running on http://\<close>, the configured host, a
  colon and the configured port: it contains the scheme, the host and the port.
\<close>

theorem start_logs_once_listening:
  assumes "create_server env w = (Inr h, w1)"
      and "env (trace w1) (Server_start h)"
  shows "\<exists>msg. msg = ''gRPC server running on '' @ ''http://'' @ host (settings (self w)) @
                       '':'' @ str_int (grpc_port (settings (self w))) \<and>
           trace (snd (start env w)) =
             trace w1 @ Server_start h # Logger_info msg #
               (if env (trace w1 @ [Server_start h]) (Logger_info msg)
                then [Wait_for_termination h] else []) \<and>
           log_lines (added w (snd (start env w))) = [msg] \<and>
           sublist ''http://'' msg \<and>
           sublist (host (settings (self w))) msg \<and>
           sublist (str_int (grpc_port (settings (self w)))) msg"
proof -
  let ?msg = "''gRPC server running on '' @ ''http://'' @ host (settings (self w)) @
                '':'' @ str_int (grpc_port (settings (self w)))"
  note ok = create_server_ok [OF assms(1)]
  have tr: "trace (snd (start env w)) =
             trace w1 @ Server_start h # Logger_info ?msg #
               (if env (trace w1 @ [Server_start h]) (Logger_info ?msg)
                then [Wait_for_termination h] else [])"
    using assms(2) ok(3) by (simp add: start_create_ok [OF assms(1) ok(2)] Let_def)
  from ok(4) obtain opts where w1: "trace w1 = trace w @
           [Aio_server h (ThreadPoolExecutor 5) [LoggingInterceptor] opts,
            Add_GRPCInferenceServiceServicer_to_server
              (InferenceServicer (data_plane (self w))) h,
            Add_ModelRepositoryServiceServicer_to_server
              (ModelRepositoryServicer (model_repository_handlers (self w))) h,
            Add_insecure_port h
              (host (settings (self w)) @ '':'' @ str_int (grpc_port (settings (self w))))]"
    by blast
  have logs: "log_lines (added w (snd (start env w))) = [?msg]"
    by (simp add: added_def tr w1)
  have scheme: "sublist ''http://'' ?msg"
    unfolding sublist_def by (rule exI [of _ "''gRPC server running on ''"]) simp
  have hst: "sublist (host (settings (self w))) ?msg"
    unfolding sublist_def
    by (rule exI [of _ "''gRPC server running on '' @ ''http://''"]) simp
  have prt: "sublist (str_int (grpc_port (settings (self w)))) ?msg"
    unfolding sublist_def
    by (rule exI [of _ "''gRPC server running on '' @ ''http://'' @
                        host (settings (self w)) @ '':''"],
        rule exI [of _ "[]"]) simp
  from tr logs scheme hst prt show ?thesis by blast
qed

theorem start_logs_once_listening_witness:
  "create_server all_ok (new_manager cfg) =
     (Inr 0, snd (create_server all_ok (new_manager cfg))) \<and>
   all_ok (trace (snd (create_server all_ok (new_manager cfg)))) (Server_start 0) \<and>
   log_lines (added (new_manager cfg) (snd (start all_ok (new_manager cfg)))) =
     [''gRPC server running on http://0.0.0.0:8081'']"
proof -
  have run: "create_server all_ok (new_manager cfg) =
      (Inr 0, snd (create_server all_ok (new_manager cfg)))"
    by (rule example_create_server(1))
  have listening:
    "all_ok (trace (snd (create_server all_ok (new_manager cfg)))) (Server_start 0)"
    by (simp add: all_ok_def)
  have line: "''gRPC server running on '' @ ''http://'' @
      host (settings (self (new_manager cfg))) @ '':'' @
      str_int (grpc_port (settings (self (new_manager cfg)))) =
      ''gRPC server running on http://0.0.0.0:8081''"
    by (simp add: new_manager_def init_def cfg_def str_eval)
  from start_logs_once_listening [OF run listening] have
    "log_lines (added (new_manager cfg) (snd (start all_ok (new_manager cfg)))) =
       [''gRPC server running on '' @ ''http://'' @
        host (settings (self (new_manager cfg))) @ '':'' @
        str_int (grpc_port (settings (self (new_manager cfg))))]"
    by blast
  with run listening line show ?thesis by simp
qed

text \<open>
  C4. When the manager holds a server, \<open>stop\<close> makes exactly one call: the server's
  \<open>stop\<close> with a grace of 5, whatever the configuration is. It returns when that call
  returns, and raises what that call raises.
\<close>

theorem stop_grace_period:
  assumes "server (self w) = Some h"
  shows "stop env w =
           (if env (trace w) (Server_stop h 5) then Inr ()
            else Inl (ExternalError (Server_stop h 5)),
            w\<lparr>trace := trace w @ [Server_stop h 5]\<rparr>)"
  using assms by (simp add: stop_def prog_defs)

theorem stop_grace_period_witness:
  "server (self (snd (start all_ok (new_manager cfg)))) = Some 0 \<and>
   added (snd (start all_ok (new_manager cfg)))
         (snd (stop all_ok (snd (start all_ok (new_manager cfg))))) = [Server_stop 0 5] \<and>
   fst (stop all_ok (snd (start all_ok (new_manager cfg)))) = Inr ()"
proof -
  have held: "server (self (snd (start all_ok (new_manager cfg)))) = Some 0"
    by (simp add: run_defs)
  from stop_grace_period [OF held, of all_ok] held show ?thesis
    by (simp add: added_def all_ok_def)
qed







end
